theory Spec2Isabelle
  imports Complex_Main "HOL-Library.Sublist" "HOL-Library.Word"
begin

section \<open>JavaScript values\<close>

text \<open>
  A JavaScript string is a sequence of UTF-16 code units; \<open>jstr\<close> is the list of
  their values.  \<open>lit\<close> turns an ASCII literal of the source into such a string.
\<close>

type_synonym jstr = "nat list"

definition lit :: "string \<Rightarrow> jstr" where
  "lit s = map of_char s"

text \<open>
  A number is only ever tested for truthiness by the code under study, so its value
  is kept exactly when finite and as a tag otherwise.
\<close>

datatype jsnum = Finite rat | PosInf | NegInf | NaN

datatype jsval =
    Undefined
  | Null
  | Bool bool
  | Num jsnum
  | Str jstr
  | Arr "jsval list"
  | Obj "(jstr \<times> jsval) list"

text \<open>What a failing operation throws inside the helpers (every such throw is caught there).\<close>

datatype js_error = TypeError | SyntaxError

text \<open>\<open>Boolean(v)\<close>: \<open>undefined\<close>, \<open>null\<close>, \<open>false\<close>, \<open>0\<close>, \<open>NaN\<close> and \<open>""\<close> are falsy.\<close>

fun truthy :: "jsval \<Rightarrow> bool" where
  "truthy Undefined = False"
| "truthy Null = False"
| "truthy (Bool b) = b"
| "truthy (Num n) = (n \<noteq> Finite 0 \<and> n \<noteq> NaN)"
| "truthy (Str s) = (s \<noteq> [])"
| "truthy (Arr xs) = True"
| "truthy (Obj ps) = True"

fun typeof :: "jsval \<Rightarrow> string" where
  "typeof Undefined = ''undefined''"
| "typeof Null = ''object''"
| "typeof (Bool b) = ''boolean''"
| "typeof (Num n) = ''number''"
| "typeof (Str s) = ''string''"
| "typeof (Arr xs) = ''object''"
| "typeof (Obj ps) = ''object''"

fun nullish :: "jsval \<Rightarrow> bool" where
  "nullish Undefined = True"
| "nullish Null = True"
| "nullish v = False"

text \<open>
  \<open>v.k\<close> for a value that is neither \<open>null\<close> nor \<open>undefined\<close>, and a key \<open>k\<close>
  that is not an array index, not \<open>length\<close> and not a name of a built-in prototype
  (the keys of the source are \<open>delta\<close>, \<open>text\<close>, \<open>data\<close>, \<open>response\<close>,
  \<open>output\<close>, \<open>content\<close>, \<open>type\<close>, \<open>json\<close>, \<open>output_text\<close>, \<open>event\<close>,
  \<open>payload\<close>, \<open>name\<close>, \<open>message\<close>, \<open>userMessage\<close>): an own property of an
  object, \<open>undefined\<close> on anything else.
\<close>

fun own_prop :: "jsval \<Rightarrow> jstr \<Rightarrow> jsval" where
  "own_prop (Obj ps) k = (case map_of ps k of Some v \<Rightarrow> v | None \<Rightarrow> Undefined)"
| "own_prop v k = Undefined"

text \<open>\<open>v.k\<close>: a TypeError on \<open>null\<close> and \<open>undefined\<close>.\<close>

definition member :: "jsval \<Rightarrow> jstr \<Rightarrow> js_error + jsval" where
  "member v k = (if nullish v then Inl TypeError else Inr (own_prop v k))"

text \<open>\<open>v?.k\<close>: \<open>undefined\<close> on \<open>null\<close> and \<open>undefined\<close>.\<close>

definition opt_member :: "jsval \<Rightarrow> jstr \<Rightarrow> jsval" where
  "opt_member v k = (if nullish v then Undefined else own_prop v k)"

text \<open>
  \<open>v?.[0]\<close>: the first element of an array, the property \<open>"0"\<close> of an object,
  the first code unit of a string, \<open>undefined\<close> otherwise.
\<close>

fun opt_index0 :: "jsval \<Rightarrow> jsval" where
  "opt_index0 (Arr xs) = (case xs of [] \<Rightarrow> Undefined | x # _ \<Rightarrow> x)"
| "opt_index0 (Obj ps) = (case map_of ps (lit ''0'') of Some v \<Rightarrow> v | None \<Rightarrow> Undefined)"
| "opt_index0 (Str s) = (case s of [] \<Rightarrow> Undefined | c # _ \<Rightarrow> Str [c])"
| "opt_index0 v = Undefined"

text \<open>\<open>a ?? b\<close>.\<close>

definition nullish_or :: "jsval \<Rightarrow> jsval \<Rightarrow> jsval" where
  "nullish_or a b = (if nullish a then b else a)"

text \<open>The string that \<open>v\<close> is when \<open>typeof v === "string"\<close>, \<open>None\<close> otherwise.\<close>

fun as_string :: "jsval \<Rightarrow> jstr option" where
  "as_string (Str s) = Some s"
| "as_string v = None"

text \<open>Sequencing of computations that may throw, and \<open>try { ... } catch { ... }\<close>.\<close>

definition and_then :: "js_error + 'a \<Rightarrow> ('a \<Rightarrow> js_error + 'b) \<Rightarrow> js_error + 'b" where
  "and_then m f = (case m of Inl e \<Rightarrow> Inl e | Inr x \<Rightarrow> f x)"

definition try_catch :: "js_error + 'a \<Rightarrow> 'a \<Rightarrow> 'a" where
  "try_catch m handler = (case m of Inl e \<Rightarrow> handler | Inr x \<Rightarrow> x)"

section \<open>The consumer's text extraction (web/src/App.tsx, extractTextFromPayload)\<close>

text \<open>
  The callback of \<open>content.map\<close>: \<open>typeof c?.text === "string" ? c.text : null\<close>;
  \<open>None\<close> is \<open>null\<close>.
\<close>

definition block_text :: "jsval \<Rightarrow> jstr option" where
  "block_text c = as_string (opt_member c (lit ''text''))"

text \<open>\<open>.filter(Boolean).join("")\<close> on an array of strings and nulls.\<close>

definition join_truthy :: "jstr option list \<Rightarrow> jstr" where
  "join_truthy xs =
     concat (map (\<lambda>x. case x of None \<Rightarrow> [] | Some s \<Rightarrow> s)
       (filter (\<lambda>x. x \<noteq> None \<and> x \<noteq> Some []) xs))"

text \<open>
  The body of the \<open>try\<close> block: \<open>Some parts\<close> when it returns \<open>parts\<close>, \<open>None\<close> when
  control leaves the block at its end.
\<close>

definition content_parts :: "jsval \<Rightarrow> js_error + jstr option" where
  "content_parts payload =
     (let content =
        opt_member (opt_index0 (opt_member (opt_member payload (lit ''response''))
          (lit ''output''))) (lit ''content'')
      in case content of
           Arr cs \<Rightarrow>
             (let parts = join_truthy (map block_text cs)
              in if parts \<noteq> [] then Inr (Some parts) else Inr None)
         | _ \<Rightarrow> Inr None)"

definition extractTextFromPayload :: "jsval \<Rightarrow> js_error + jstr" where
  "extractTextFromPayload payload =
     (if \<not> truthy payload \<or> typeof payload \<noteq> ''object'' then Inr []
      else and_then (member payload (lit ''delta'')) (\<lambda>delta.
        case as_string delta of
          Some s \<Rightarrow> Inr s
        | None \<Rightarrow> and_then (member payload (lit ''text'')) (\<lambda>txt.
            case as_string txt of
              Some s \<Rightarrow> Inr s
            | None \<Rightarrow> and_then (member payload (lit ''data'')) (\<lambda>d.
                and_then (if truthy d then member d (lit ''text'') else Inr Undefined) (\<lambda>dt.
                  case as_string dt of
                    Some s \<Rightarrow> Inr s
                  | None \<Rightarrow>
                      (case try_catch (content_parts payload) None of
                         Some parts \<Rightarrow> Inr parts
                       | None \<Rightarrow> Inr []))))))"

subsection \<open>The heuristic as the specification words it\<close>

text \<open>
  The specification's reading of the heuristic, to compare with the function above:
  the first applicable of a top-level string \<open>delta\<close>, a top-level string \<open>text\<close>,
  a string \<open>text\<close> under \<open>data\<close>, the concatenation of the string \<open>text\<close> fields
  of the blocks in the array at \<open>response.output[0].content\<close>, and the empty string.
  A field is an own property of an object; \<open>[0]\<close> is the first element of an array or
  the property \<open>"0"\<close> of an object.
\<close>

definition field :: "jsval \<Rightarrow> jstr \<Rightarrow> jsval option" where
  "field v k = (case v of Obj ps \<Rightarrow> map_of ps k | _ \<Rightarrow> None)"

definition string_field :: "jsval \<Rightarrow> jstr \<Rightarrow> jstr option" where
  "string_field v k = (case field v k of Some (Str s) \<Rightarrow> Some s | _ \<Rightarrow> None)"

definition element0 :: "jsval \<Rightarrow> jsval option" where
  "element0 v =
     (case v of
        Arr xs \<Rightarrow> (case xs of [] \<Rightarrow> None | x # _ \<Rightarrow> Some x)
      | Obj ps \<Rightarrow> map_of ps (lit ''0'')
      | _ \<Rightarrow> None)"

definition content_blocks :: "jsval \<Rightarrow> jsval list option" where
  "content_blocks payload =
     (case field payload (lit ''response'') of
        None \<Rightarrow> None
      | Some r \<Rightarrow>
          (case field r (lit ''output'') of
             None \<Rightarrow> None
           | Some out \<Rightarrow>
               (case element0 out of
                  None \<Rightarrow> None
                | Some b \<Rightarrow>
                    (case field b (lit ''content'') of
                       Some (Arr cs) \<Rightarrow> Some cs
                     | _ \<Rightarrow> None))))"

definition first_applicable_text :: "jsval \<Rightarrow> jstr" where
  "first_applicable_text payload =
     (case string_field payload (lit ''delta'') of
        Some s \<Rightarrow> s
      | None \<Rightarrow>
          (case string_field payload (lit ''text'') of
             Some s \<Rightarrow> s
           | None \<Rightarrow>
               (case (case field payload (lit ''data'') of
                        Some d \<Rightarrow> string_field d (lit ''text'')
                      | None \<Rightarrow> None) of
                  Some s \<Rightarrow> s
                | None \<Rightarrow>
                    (case content_blocks payload of
                       Some cs \<Rightarrow> concat (List.map_filter (\<lambda>c. string_field c (lit ''text'')) cs)
                     | None \<Rightarrow> []))))"

section \<open>The consumer's frames (web/src/App.tsx, startStream)\<close>

text \<open>
  What \<open>String.prototype.trim\<close> removes and what \<open>\s\<close> matches: the white space
  and line terminator code units of ECMAScript.
\<close>

definition is_ws :: "nat \<Rightarrow> bool" where
  "is_ws c =
     (c = 9 \<or> c = 10 \<or> c = 11 \<or> c = 12 \<or> c = 13 \<or> c = 32 \<or> c = 160 \<or> c = 5760 \<or>
      (8192 \<le> c \<and> c \<le> 8202) \<or> c = 8232 \<or> c = 8233 \<or> c = 8239 \<or> c = 8287 \<or>
      c = 12288 \<or> c = 65279)"

definition trim :: "jstr \<Rightarrow> jstr" where
  "trim s = rev (dropWhile is_ws (rev (dropWhile is_ws s)))"

text \<open>\<open>line.replace(/^data:\s?/, "")\<close>.\<close>

definition strip_data :: "jstr \<Rightarrow> jstr" where
  "strip_data line =
     (if prefix (lit ''data:'') line
      then (case drop 5 line of
              [] \<Rightarrow> []
            | c # cs \<Rightarrow> if is_ws c then cs else c # cs)
      else line)"

text \<open>
  \<open>s.split(sep)\<close> for a string separator: the pieces between the leftmost
  non-overlapping occurrences of \<open>sep\<close>; the code units of \<open>s\<close> when \<open>sep\<close> is empty.
\<close>

fun cons_hd :: "'a \<Rightarrow> 'a list list \<Rightarrow> 'a list list" where
  "cons_hd a [] = [[a]]"
| "cons_hd a (p # ps) = (a # p) # ps"

function js_split :: "jstr \<Rightarrow> jstr \<Rightarrow> jstr list" where
  "js_split sep s =
     (if sep = [] then map (\<lambda>c. [c]) s
      else if s = [] then [[]]
      else if prefix sep s then [] # js_split sep (drop (length sep) s)
      else cons_hd (hd s) (js_split sep (tl s)))"
  by pat_completeness auto
termination
  by (relation "measure (\<lambda>(sep, s). length s)") auto

declare js_split.simps [simp del]

text \<open>The separator of the frames, \<open>"\n\n"\<close>.\<close>

definition frame_delim :: jstr where
  "frame_delim = [10, 10]"

text \<open>
  The state the component keeps: the \<open>useState\<close> cells \<open>error\<close>, \<open>events\<close>,
  \<open>finalJson\<close>, \<open>transcript\<close> and \<open>isStreaming\<close>, and \<open>controllerRef\<close>.  The
  AbortControllers created so far live in a store, \<open>controllers\<close>: the entry at a
  controller's index tells whether it has been aborted, and \<open>controllerRef\<close> holds the
  index of the controller it refers to, or \<open>None\<close> for \<open>null\<close>.
\<close>

record consumer =
  error :: jsval
  events :: "jsval list"
  finalJson :: jsval
  transcript :: jstr
  isStreaming :: bool
  controllers :: "bool list"
  controllerRef :: "nat option"

text \<open>
  The statements after a successful \<open>JSON.parse\<close>, inside the \<open>try\<close> of a frame.
  A throw leaves the \<open>try\<close> with the state updates made so far and is swallowed by
  the empty \<open>catch\<close>.
\<close>

definition process_event :: "consumer \<Rightarrow> jsval \<Rightarrow> consumer" where
  "process_event st evt =
     (let st1 = st\<lparr>events := events st @ [evt]\<rparr> in
      case member evt (lit ''event'') of
        Inl e \<Rightarrow> st1
      | Inr ev \<Rightarrow>
          (case (if ev = Str (lit ''message'') \<and> truthy (own_prop evt (lit ''payload''))
                 then (case extractTextFromPayload (own_prop evt (lit ''payload'')) of
                         Inl e \<Rightarrow> Inl e
                       | Inr t \<Rightarrow>
                           Inr (if t \<noteq> [] then st1\<lparr>transcript := transcript st1 @ t\<rparr>
                                else st1))
                 else Inr st1) of
             Inl e \<Rightarrow> st1
           | Inr st2 \<Rightarrow>
               if ev = Str (lit ''final'')
               then st2\<lparr>finalJson := nullish_or (own_prop evt (lit ''data'')) Null\<rparr>
               else st2))"

text \<open>
  The body of \<open>for (const chunk of parts)\<close>.  \<open>parse\<close> is \<open>JSON.parse\<close>, which the
  platform provides: \<open>Inl\<close> when it throws.
\<close>

definition process_frame :: "(jsval \<Rightarrow> js_error + jsval) \<Rightarrow> consumer \<Rightarrow> jstr \<Rightarrow> consumer" where
  "process_frame parse st chunk =
     (let line = trim chunk in
      if \<not> prefix (lit ''data:'') line then st
      else (case parse (Str (strip_data line)) of
              Inl e \<Rightarrow> st
            | Inr evt \<Rightarrow> process_event st evt))"

definition process_frames :: "(jsval \<Rightarrow> js_error + jsval) \<Rightarrow> consumer \<Rightarrow> jstr list \<Rightarrow> consumer" where
  "process_frames parse st parts = foldl (process_frame parse) st parts"

section \<open>The consumer's read loop\<close>

text \<open>
  \<open>decoder.decode(value, {stream: true})\<close> belongs to the platform.  A streaming
  decoder reads its input byte by byte and keeps what it needs between calls: \<open>dstep\<close>
  is its transition, from a state and a byte to the next state and the code units
  that byte completes.
\<close>

fun decode :: "('d \<Rightarrow> 8 word \<Rightarrow> 'd \<times> jstr) \<Rightarrow> 'd \<Rightarrow> 8 word list \<Rightarrow> 'd \<times> jstr" where
  "decode dstep d [] = (d, [])"
| "decode dstep d (b # bs) =
     (case dstep d b of (d1, o1) \<Rightarrow>
        (case decode dstep d1 bs of (d2, o2) \<Rightarrow> (d2, o1 @ o2)))"

text \<open>The variables of one run of \<open>startStream\<close>, next to the component's state.\<close>

record 'd session =
  app :: consumer
  buffer :: jstr
  decoder :: 'd

text \<open>
  One turn of \<open>while (true)\<close> after \<open>reader.read()\<close> gave a chunk: decode and
  append, split, keep the last piece (\<open>parts.pop() ?? ""\<close>), process the others.
\<close>

definition read_step ::
  "(jsval \<Rightarrow> js_error + jsval) \<Rightarrow> ('d \<Rightarrow> 8 word \<Rightarrow> 'd \<times> jstr) \<Rightarrow> 'd session \<Rightarrow> 8 word list \<Rightarrow> 'd session" where
  "read_step parse dstep l v =
     (case decode dstep (decoder l) v of (d, t) \<Rightarrow>
        (let parts = js_split frame_delim (buffer l @ t)
         in \<lparr>app = process_frames parse (app l) (butlast parts),
             buffer = (if parts = [] then [] else last parts),
             decoder = d\<rparr>))"

text \<open>
  What \<open>await reader.read()\<close> gives: a chunk, the end of the stream, or a rejection
  with the value thrown.  A reader is the sequence of the results of its reads.
\<close>

datatype read_result = Chunk "8 word list" | Done | Rejected jsval

text \<open>
  The loop.  It ends with the session's variables and the value thrown, if any; it
  does not end while the reader keeps giving chunks, which is the result \<open>None\<close>.
\<close>

partial_function (option) read_loop ::
  "(jsval \<Rightarrow> js_error + jsval) \<Rightarrow> ('d \<Rightarrow> 8 word \<Rightarrow> 'd \<times> jstr) \<Rightarrow> (nat \<Rightarrow> read_result) \<Rightarrow> nat
     \<Rightarrow> 'd session \<Rightarrow> (jsval option \<times> 'd session) option" where
  "read_loop parse dstep reader i l =
     (case reader i of
        Done \<Rightarrow> Some (None, l)
      | Rejected e \<Rightarrow> Some (Some e, l)
      | Chunk v \<Rightarrow> read_loop parse dstep reader (Suc i) (read_step parse dstep l v))"

text \<open>
  The reader of a stream that delivers the chunks \<open>cs\<close> and then ends (\<open>None\<close>) or
  rejects the next read with a value (\<open>Some e\<close>).
\<close>

definition reader_of :: "8 word list list \<Rightarrow> jsval option \<Rightarrow> nat \<Rightarrow> read_result" where
  "reader_of cs fin i =
     (if i < length cs then Chunk (cs ! i)
      else (case fin of None \<Rightarrow> Done | Some e \<Rightarrow> Rejected e))"

text \<open>Decimal digits of a number, for the template literal of the error message.\<close>

function decimal :: "nat \<Rightarrow> jstr" where
  "decimal n = (if n < 10 then [48 + n] else decimal (n div 10) @ [48 + n mod 10])"
  by pat_completeness auto
termination
  by (relation "measure id") auto

declare decimal.simps [simp del]

text \<open>
  What \<open>await fetch(...)\<close> gives: a rejection, or a response with \<open>ok\<close>, \<open>status\<close>
  and a body (\<open>None\<close> for \<open>null\<close>) from which the reader is taken.
\<close>

datatype fetch_result =
    FetchRejected jsval
  | Response bool nat "(nat \<Rightarrow> read_result) option"

text \<open>\<open>new Error(msg)\<close>, as far as the handler reads it.\<close>

definition new_Error :: "jstr \<Rightarrow> jsval" where
  "new_Error msg = Obj [(lit ''name'', Str (lit ''Error'')), (lit ''message'', Str msg)]"

text \<open>The statements of \<open>startStream\<close> before the \<open>try\<close>.\<close>

definition startStream_begin :: "consumer \<Rightarrow> consumer" where
  "startStream_begin st =
     st\<lparr>error := Null, events := [], finalJson := Null, transcript := [],
        controllers := controllers st @ [False],
        controllerRef := Some (length (controllers st))\<rparr>"

text \<open>The \<open>catch (e)\<close> and the \<open>finally\<close> of \<open>startStream\<close>.\<close>

definition on_catch :: "jsval \<Rightarrow> consumer \<Rightarrow> consumer" where
  "on_catch e st =
     (if opt_member e (lit ''name'') \<noteq> Str (lit ''AbortError'')
      then st\<lparr>error :=
             (if truthy (opt_member e (lit ''message'')) then opt_member e (lit ''message'')
              else Str (lit ''Stream error''))\<rparr>
      else st)"

definition on_finally :: "consumer \<Rightarrow> consumer" where
  "on_finally st = st\<lparr>isStreaming := False, controllerRef := None\<rparr>"

text \<open>
  \<open>startStream\<close>, run against what \<open>fetch\<close> gives; \<open>d0\<close> is the state of a new
  decoder.  \<open>None\<close> when the run never ends.
\<close>

definition startStream ::
  "(jsval \<Rightarrow> js_error + jsval) \<Rightarrow> ('d \<Rightarrow> 8 word \<Rightarrow> 'd \<times> jstr) \<Rightarrow> 'd \<Rightarrow> fetch_result \<Rightarrow> consumer
     \<Rightarrow> consumer option" where
  "startStream parse dstep d0 fetched st =
     (let st0 = (startStream_begin st)\<lparr>isStreaming := True\<rparr> in
      case fetched of
        FetchRejected e \<Rightarrow> Some (on_finally (on_catch e st0))
      | Response ok status body \<Rightarrow>
          (case (if \<not> ok then None else body) of
             None \<Rightarrow>
               Some (on_finally (on_catch
                 (new_Error (lit ''Stream failed with status '' @ decimal status)) st0))
           | Some reader \<Rightarrow>
               (case read_loop parse dstep reader 0 \<lparr>app = st0, buffer = [], decoder = d0\<rparr> of
                  None \<Rightarrow> None
                | Some (None, l) \<Rightarrow> Some (on_finally (app l))
                | Some (Some e, l) \<Rightarrow> Some (on_finally (on_catch e (app l))))))"

definition stopStream :: "consumer \<Rightarrow> consumer" where
  "stopStream st =
     (let cs = (case controllerRef st of
                  None \<Rightarrow> controllers st
                | Some c \<Rightarrow> (controllers st)[c := True])
      in st\<lparr>controllers := cs, controllerRef := None, isStreaming := False\<rparr>)"

subsection \<open>A run with the user's calls of stopStream in between\<close>

text \<open>
  \<open>startStream\<close> passes the signal of its controller to \<open>fetch\<close>.  The platform
  rejects a \<open>fetch\<close>, and a read of the body it gave, with a DOMException named
  \<open>AbortError\<close> once that controller is aborted; the exception's message is the
  browser's own and the handler does not read it.
\<close>

definition abort_error :: jsval where
  "abort_error = Obj [(lit ''name'', Str (lit ''AbortError''))]"

definition aborted :: "consumer \<Rightarrow> nat \<Rightarrow> bool" where
  "aborted st c = (c < length (controllers st) \<and> controllers st ! c)"

text \<open>
  The loop of the run whose controller is \<open>c\<close>, with the component's state shared
  with the user: \<open>stops i\<close> tells whether the user calls \<open>stopStream\<close> while the
  read number \<open>i\<close> is pending.  A read on an aborted signal is rejected; any other
  read gives what the reader gives.
\<close>

partial_function (option) read_loop_signal ::
  "(jsval \<Rightarrow> js_error + jsval) \<Rightarrow> ('d \<Rightarrow> 8 word \<Rightarrow> 'd \<times> jstr) \<Rightarrow> (nat \<Rightarrow> read_result)
     \<Rightarrow> (nat \<Rightarrow> bool) \<Rightarrow> nat \<Rightarrow> nat \<Rightarrow> 'd session \<Rightarrow> (jsval option \<times> 'd session) option" where
  "read_loop_signal parse dstep reader stops c i l =
     (if aborted (app (if stops i then l\<lparr>app := stopStream (app l)\<rparr> else l)) c
      then Some (Some abort_error, if stops i then l\<lparr>app := stopStream (app l)\<rparr> else l)
      else (case reader i of
              Done \<Rightarrow> Some (None, if stops i then l\<lparr>app := stopStream (app l)\<rparr> else l)
            | Rejected e \<Rightarrow> Some (Some e, if stops i then l\<lparr>app := stopStream (app l)\<rparr> else l)
            | Chunk v \<Rightarrow>
                read_loop_signal parse dstep reader stops c (Suc i)
                  (read_step parse dstep (if stops i then l\<lparr>app := stopStream (app l)\<rparr> else l) v)))"

text \<open>
  \<open>startStream\<close> run that way; \<open>stop_fetch\<close> tells whether the user calls
  \<open>stopStream\<close> while the \<open>fetch\<close> is pending.  The controller of the run is the
  one \<open>startStream_begin\<close> creates, at the end of the store.
\<close>

definition startStream_signal ::
  "(jsval \<Rightarrow> js_error + jsval) \<Rightarrow> ('d \<Rightarrow> 8 word \<Rightarrow> 'd \<times> jstr) \<Rightarrow> 'd \<Rightarrow> fetch_result \<Rightarrow> bool
     \<Rightarrow> (nat \<Rightarrow> bool) \<Rightarrow> consumer \<Rightarrow> consumer option" where
  "startStream_signal parse dstep d0 fetched stop_fetch stops st =
     (let c = length (controllers st);
          st0 = (startStream_begin st)\<lparr>isStreaming := True\<rparr>;
          st1 = (if stop_fetch then stopStream st0 else st0)
      in case (if aborted st1 c then FetchRejected abort_error else fetched) of
           FetchRejected e \<Rightarrow> Some (on_finally (on_catch e st1))
         | Response ok status body \<Rightarrow>
             (case (if \<not> ok then None else body) of
                None \<Rightarrow>
                  Some (on_finally (on_catch
                    (new_Error (lit ''Stream failed with status '' @ decimal status)) st1))
              | Some reader \<Rightarrow>
                  (case read_loop_signal parse dstep reader stops c 0
                          \<lparr>app = st1, buffer = [], decoder = d0\<rparr> of
                     None \<Rightarrow> None
                   | Some (None, l) \<Rightarrow> Some (on_finally (app l))
                   | Some (Some e, l) \<Rightarrow> Some (on_finally (on_catch e (app l))))))"

section \<open>The relay's extraction (server/src/server.ts, extractJsonFromResponse)\<close>

text \<open>
  \<open>raw.match(/\{[\s\S]*\}$/)\<close>, giving \<open>match[0]\<close>: the match starts at the first
  \<open>{\<close> (code unit 123) and runs to the end of the string, which has to be a
  \<open>}\<close> (code unit 125); \<open>None\<close> when there is no match.
\<close>

definition match_braces :: "jstr \<Rightarrow> jstr option" where
  "match_braces raw =
     (if raw \<noteq> [] \<and> last raw = 125 \<and> 123 \<in> set raw
      then Some (dropWhile (\<lambda>c. c \<noteq> 123) raw)
      else None)"

text \<open>
  \<open>parse\<close> is \<open>JSON.parse\<close> and \<open>stringify\<close> is \<open>JSON.stringify\<close>, both the
  platform's; \<open>Inl\<close> when they throw.  \<open>JSON.stringify\<close> gives a string or
  \<open>undefined\<close>, and \<open>.match\<close> on anything but a string throws.
\<close>

definition extractJsonFromResponse ::
  "(jsval \<Rightarrow> js_error + jsval) \<Rightarrow> (jsval \<Rightarrow> js_error + jsval) \<Rightarrow> jsval \<Rightarrow> jsval" where
  "extractJsonFromResponse parse stringify r =
     try_catch
       (and_then (member r (lit ''output_text'')) (\<lambda>maybeText.
          case (if truthy maybeText
                then (case parse maybeText of Inl e \<Rightarrow> None | Inr v \<Rightarrow> Some v)
                else None) of
            Some v \<Rightarrow> Inr v
          | None \<Rightarrow>
              (let content =
                 opt_index0 (opt_member (opt_index0 (opt_member r (lit ''output'')))
                   (lit ''content''))
               in if opt_member content (lit ''type'') = Str (lit ''output_json'')
                  then member content (lit ''json'')
                  else and_then (stringify r) (\<lambda>raw.
                         case raw of
                           Str s \<Rightarrow>
                             (case match_braces s of
                                Some m \<Rightarrow> parse (Str m)
                              | None \<Rightarrow> Inr Null)
                         | _ \<Rightarrow> Inl TypeError))))
       Null"

text \<open>
  The handler of \<open>POST /api/chat\<close>.  \<open>upstream\<close> is \<open>openai.responses.create\<close>
  as a function of the user's message: \<open>Inl\<close> the value it rejects with, \<open>Inr\<close> the
  response.  The handler answers with a status and the object given to \<open>res.json\<close>,
  or hands an error to \<open>next\<close>.
\<close>

datatype http_result = Json nat jsval | Next jsval

definition chat_endpoint ::
  "(jsval \<Rightarrow> js_error + jsval) \<Rightarrow> (jsval \<Rightarrow> js_error + jsval) \<Rightarrow> (jsval \<Rightarrow> jsval + jsval) \<Rightarrow> jsval
     \<Rightarrow> http_result" where
  "chat_endpoint parse stringify upstream body =
     (let userMessage = own_prop (if truthy body then body else Obj []) (lit ''userMessage'')
      in if \<not> truthy userMessage \<or> typeof userMessage \<noteq> ''string''
         then Json 400 (Obj [(lit ''error'', Str (lit ''bad_request'')),
                (lit ''message'', Str (lit ''userMessage (string) is required''))])
         else (case upstream userMessage of
                 Inl err \<Rightarrow> Next err
               | Inr r \<Rightarrow>
                   Json 200 (Obj [(lit ''data'', extractJsonFromResponse parse stringify r)])))"

subsection \<open>The three attempts as the specification words them\<close>

text \<open>
  The specification's reading of the extraction, to compare with the function above.
  (a) The aggregated text field, when present (truthy), parsed as JSON.  (b) The
  structured content at the path \<open>output[0].content[0]\<close>: when its type tag is
  \<open>output_json\<close>, its \<open>json\<close> field.  (c) The serialized response, matched against
  the pattern and parsed.  An attempt that throws has failed.
\<close>

definition attempt_text :: "(jsval \<Rightarrow> js_error + jsval) \<Rightarrow> jsval \<Rightarrow> jsval option" where
  "attempt_text parse r =
     (case field r (lit ''output_text'') of
        None \<Rightarrow> None
      | Some t \<Rightarrow>
          if truthy t then (case parse t of Inl e \<Rightarrow> None | Inr v \<Rightarrow> Some v) else None)"

definition structured_content :: "jsval \<Rightarrow> jsval option" where
  "structured_content r =
     Option.bind (Option.bind (Option.bind (field r (lit ''output'')) element0)
       (\<lambda>b. field b (lit ''content''))) element0"

definition attempt_structured :: "jsval \<Rightarrow> jsval option" where
  "attempt_structured r =
     (case structured_content r of
        None \<Rightarrow> None
      | Some c \<Rightarrow>
          if field c (lit ''type'') = Some (Str (lit ''output_json''))
          then Some (case field c (lit ''json'') of None \<Rightarrow> Undefined | Some j \<Rightarrow> j)
          else None)"

definition attempt_scan ::
  "(jsval \<Rightarrow> js_error + jsval) \<Rightarrow> (jsval \<Rightarrow> js_error + jsval) \<Rightarrow> jsval \<Rightarrow> jsval option" where
  "attempt_scan parse stringify r =
     (case stringify r of
        Inr (Str raw) \<Rightarrow>
          (case match_braces raw of
             None \<Rightarrow> None
           | Some m \<Rightarrow> (case parse (Str m) of Inl e \<Rightarrow> None | Inr v \<Rightarrow> Some v))
      | _ \<Rightarrow> None)"

definition first_success ::
  "(jsval \<Rightarrow> js_error + jsval) \<Rightarrow> (jsval \<Rightarrow> js_error + jsval) \<Rightarrow> jsval \<Rightarrow> jsval" where
  "first_success parse stringify r =
     (case attempt_text parse r of
        Some v \<Rightarrow> v
      | None \<Rightarrow>
          (case attempt_structured r of
             Some v \<Rightarrow> v
           | None \<Rightarrow>
               (case attempt_scan parse stringify r of
                  Some v \<Rightarrow> v
                | None \<Rightarrow> Null)))"

text \<open>The value of a lookup, \<open>undefined\<close> when there is none.\<close>

definition or_undefined :: "jsval option \<Rightarrow> jsval" where
  "or_undefined x = (case x of None \<Rightarrow> Undefined | Some v \<Rightarrow> v)"

section \<open>The schema (server/src/schemas/visa.ts, VisaIntakeSchema)\<close>

text \<open>
  \<open>minLength\<close> counts characters, not code units: a surrogate pair is one character.
\<close>

fun char_count :: "jstr \<Rightarrow> nat" where
  "char_count (a # b # s) =
     (if 55296 \<le> a \<and> a \<le> 56319 \<and> 56320 \<le> b \<and> b \<le> 57343 then Suc (char_count s)
      else Suc (char_count (b # s)))"
| "char_count [a] = 1"
| "char_count [] = 0"

definition is_digit :: "nat \<Rightarrow> bool" where
  "is_digit c = (48 \<le> c \<and> c \<le> 57)"

text \<open>The pattern \<open>^\d{4}-\d{2}-\d{2}$\<close>.\<close>

definition matches_dob :: "jstr \<Rightarrow> bool" where
  "matches_dob s =
     (case s of
        [y1, y2, y3, y4, h1, m1, m2, h2, d1, d2] \<Rightarrow>
          is_digit y1 \<and> is_digit y2 \<and> is_digit y3 \<and> is_digit y4 \<and> h1 = 45 \<and>
          is_digit m1 \<and> is_digit m2 \<and> h2 = 45 \<and> is_digit d1 \<and> is_digit d2
      | _ \<Rightarrow> False)"

text \<open>A property of type string that satisfies \<open>ok\<close>.\<close>

definition string_prop :: "(jstr \<times> jsval) list \<Rightarrow> jstr \<Rightarrow> (jstr \<Rightarrow> bool) \<Rightarrow> bool" where
  "string_prop ps k ok = (case map_of ps k of Some (Str s) \<Rightarrow> ok s | _ \<Rightarrow> False)"

text \<open>
  A value that satisfies \<open>VisaIntakeSchema\<close>: an object with the four required
  properties, each a string within its constraint, and no other property.
\<close>

definition VisaIntakeSchema :: "jsval \<Rightarrow> bool" where
  "VisaIntakeSchema v =
     (case v of
        Obj ps \<Rightarrow>
          list_all (\<lambda>k. k = lit ''full_name'' \<or> k = lit ''dob'' \<or> k = lit ''passport_number''
                      \<or> k = lit ''nationality'') (map fst ps) \<and>
          string_prop ps (lit ''full_name'') (\<lambda>s. 1 \<le> char_count s) \<and>
          string_prop ps (lit ''dob'') matches_dob \<and>
          string_prop ps (lit ''passport_number'') (\<lambda>s. 5 \<le> char_count s) \<and>
          string_prop ps (lit ''nationality'') (\<lambda>s. 2 \<le> char_count s)
      | _ \<Rightarrow> False)"

text \<open>A complete Structured Intake Result, or \<open>null\<close>.\<close>

definition complete_or_null :: "jsval \<Rightarrow> bool" where
  "complete_or_null v = (v = Null \<or> VisaIntakeSchema v)"

section \<open>Instances of the platform's functions for concrete runs\<close>

text \<open>
  The UTF-8 decoder of the Encoding Standard, which \<open>new TextDecoder()\<close> runs: the
  code point under construction, the bytes seen and needed, the bounds of the next
  byte, and whether the byte order mark has been passed.  A malformed sequence gives
  U+FFFD; a leading U+FEFF is dropped; a code point above U+FFFF becomes a surrogate
  pair.
\<close>

record utf8_decoder =
  code_point :: nat
  bytes_seen :: nat
  bytes_needed :: nat
  lower_boundary :: nat
  upper_boundary :: nat
  bom_seen :: bool

definition utf8_new :: utf8_decoder where
  "utf8_new = \<lparr>code_point = 0, bytes_seen = 0, bytes_needed = 0, lower_boundary = 128,
     upper_boundary = 191, bom_seen = False\<rparr>"

definition utf16_units :: "nat \<Rightarrow> jstr" where
  "utf16_units cp =
     (if cp < 65536 then [cp]
      else [55296 + (cp - 65536) div 1024, 56320 + (cp - 65536) mod 1024])"

text \<open>The output of one code point, after the byte order mark's check.\<close>

definition utf8_emit :: "utf8_decoder \<Rightarrow> nat \<Rightarrow> utf8_decoder \<times> jstr" where
  "utf8_emit d cp =
     (d\<lparr>bom_seen := True\<rparr>, if \<not> bom_seen d \<and> cp = 65279 then [] else utf16_units cp)"

text \<open>A byte read when no sequence is under way.\<close>

definition utf8_lead :: "utf8_decoder \<Rightarrow> nat \<Rightarrow> utf8_decoder \<times> jstr" where
  "utf8_lead d b =
     (if b \<le> 127 then utf8_emit d b
      else if 194 \<le> b \<and> b \<le> 223
        then (d\<lparr>bytes_needed := 1, code_point := b mod 32\<rparr>, [])
      else if 224 \<le> b \<and> b \<le> 239
        then (d\<lparr>lower_boundary := (if b = 224 then 160 else lower_boundary d),
                upper_boundary := (if b = 237 then 159 else upper_boundary d),
                bytes_needed := 2, code_point := b mod 16\<rparr>, [])
      else if 240 \<le> b \<and> b \<le> 244
        then (d\<lparr>lower_boundary := (if b = 240 then 144 else lower_boundary d),
                upper_boundary := (if b = 244 then 143 else upper_boundary d),
                bytes_needed := 3, code_point := b mod 8\<rparr>, [])
      else utf8_emit d 65533)"

definition utf8_reset :: "utf8_decoder \<Rightarrow> utf8_decoder" where
  "utf8_reset d =
     d\<lparr>code_point := 0, bytes_seen := 0, bytes_needed := 0, lower_boundary := 128,
       upper_boundary := 191\<rparr>"

definition utf8_step :: "utf8_decoder \<Rightarrow> 8 word \<Rightarrow> utf8_decoder \<times> jstr" where
  "utf8_step d w =
     (let b = unat w in
      if bytes_needed d = 0 then utf8_lead d b
      else if b < lower_boundary d \<or> upper_boundary d < b
        then (case utf8_emit (utf8_reset d) 65533 of (d1, o1) \<Rightarrow>
                (case utf8_lead d1 b of (d2, o2) \<Rightarrow> (d2, o1 @ o2)))
      else (let cp = code_point d * 64 + b mod 64 in
            if Suc (bytes_seen d) \<noteq> bytes_needed d
            then (d\<lparr>lower_boundary := 128, upper_boundary := 191, code_point := cp,
                    bytes_seen := Suc (bytes_seen d)\<rparr>, [])
            else utf8_emit (utf8_reset d) cp))"

text \<open>
  \<open>String(v)\<close>, the conversion that \<open>JSON.parse\<close> applies to its argument and
  \<open>Array.prototype.join\<close> to the elements of an array (where \<open>null\<close> and
  \<open>undefined\<close> give the empty string).  It has no value for a fraction and for an
  integer of 22 digits or more, whose digits the values of this model do not determine.
\<close>

definition num_text :: "jsnum \<Rightarrow> jstr option" where
  "num_text n =
     (case n of
        Finite q \<Rightarrow>
          if q = of_int \<lfloor>q\<rfloor> \<and> \<bar>q\<bar> < 10 ^ 21
          then Some ((if q < 0 then [45] else []) @ decimal (nat \<bar>\<lfloor>q\<rfloor>\<bar>))
          else None
      | PosInf \<Rightarrow> Some (lit ''Infinity'')
      | NegInf \<Rightarrow> Some (lit ''-Infinity'')
      | NaN \<Rightarrow> Some (lit ''NaN''))"

fun join_comma :: "jstr option list \<Rightarrow> jstr option" where
  "join_comma [] = Some []"
| "join_comma [t] = t"
| "join_comma (t # u # ts) =
     (case t of
        None \<Rightarrow> None
      | Some a \<Rightarrow> (case join_comma (u # ts) of None \<Rightarrow> None | Some b \<Rightarrow> Some (a @ 44 # b)))"

fun to_text :: "jsval \<Rightarrow> jstr option" where
  "to_text Undefined = Some (lit ''undefined'')"
| "to_text Null = Some (lit ''null'')"
| "to_text (Bool b) = Some (if b then lit ''true'' else lit ''false'')"
| "to_text (Num n) = num_text n"
| "to_text (Str s) = Some s"
| "to_text (Obj ps) = Some (lit ''[object Object]'')"
| "to_text (Arr xs) = join_comma (map (\<lambda>x. if nullish x then Some [] else to_text x) xs)"

text \<open>
  \<open>JSON.parse\<close> at the texts listed in a table; a text that the table omits stands
  for one that \<open>JSON.parse\<close> rejects.  An argument that is not a string is converted
  to a string first.  So \<open>null\<close>, a boolean and a finite number come back as they are;
  \<open>undefined\<close>, a number that is not finite, an object and the empty array give a
  text that is not JSON; an array of one element gives the text of that element; and
  a longer array gives the texts of its elements joined by commas, looked up in the
  table (and taken as omitted when \<open>to_text\<close> has no value for it).
\<close>

fun parse_at :: "(jstr \<times> jsval) list \<Rightarrow> jsval \<Rightarrow> js_error + jsval" where
  "parse_at tbl (Str s) = (case map_of tbl s of Some v \<Rightarrow> Inr v | None \<Rightarrow> Inl SyntaxError)"
| "parse_at tbl Null = Inr Null"
| "parse_at tbl (Bool b) = Inr (Bool b)"
| "parse_at tbl (Num n) = (case n of Finite q \<Rightarrow> Inr (Num n) | _ \<Rightarrow> Inl SyntaxError)"
| "parse_at tbl Undefined = Inl SyntaxError"
| "parse_at tbl (Obj ps) = Inl SyntaxError"
| "parse_at tbl (Arr []) = Inl SyntaxError"
| "parse_at tbl (Arr [x]) = (if nullish x then Inl SyntaxError else parse_at tbl x)"
| "parse_at tbl (Arr (x # y # zs)) =
     (case to_text (Arr (x # y # zs)) of
        None \<Rightarrow> Inl SyntaxError
      | Some s \<Rightarrow> (case map_of tbl s of Some v \<Rightarrow> Inr v | None \<Rightarrow> Inl SyntaxError))"

text \<open>
  \<open>JSON.stringify\<close> at the arguments listed in a table; the runs below call it on
  listed arguments only.
\<close>

definition stringify_at :: "(jsval \<times> jstr) list \<Rightarrow> jsval \<Rightarrow> js_error + jsval" where
  "stringify_at tbl x =
     (case map_of tbl x of Some s \<Rightarrow> Inr (Str s) | None \<Rightarrow> Inr Undefined)"

text \<open>
  The values of the runs below: the record of the specification's scenario, the
  \<open>final\<close> event that carries it with its JSON text, a \<open>message\<close> event with its
  JSON text, and a response whose text is \<open>not json\<close> with its serialization.
\<close>

definition jane :: jsval where
  "jane = Obj [(lit ''full_name'', Str (lit ''Jane Doe'')), (lit ''dob'', Str (lit ''1991-04-12'')),
     (lit ''passport_number'', Str (lit ''AB1234567'')), (lit ''nationality'', Str (lit ''UK''))]"

definition final_event :: jsval where
  "final_event = Obj [(lit ''event'', Str (lit ''final'')), (lit ''data'', jane)]"

definition final_text :: jstr where
  \<open>final_text = lit ''{"event":"final","data":{"full_name":"Jane Doe","dob":"1991-04-12","passport_number":"AB1234567","nationality":"UK"}}''\<close>

definition message_event :: jsval where
  "message_event =
     Obj [(lit ''event'', Str (lit ''message'')),
          (lit ''payload'', Obj [(lit ''delta'', Str (lit ''Jane''))])]"

definition message_text :: jstr where
  \<open>message_text = lit ''{"event":"message","payload":{"delta":"Jane"}}''\<close>

definition not_json_response :: jsval where
  "not_json_response = Obj [(lit ''output_text'', Str (lit ''not json''))]"

definition not_json_raw :: jstr where
  \<open>not_json_raw = lit ''{"output_text":"not json"}''\<close>

text \<open>
  \<open>JSON.parse\<close> at the texts of the runs: the character U+00E9 between two quotes
  (a JSON string), \<open>1\<close>, and the three texts above.
\<close>

definition sample_parse :: "jsval \<Rightarrow> js_error + jsval" where
  "sample_parse =
     parse_at [([34, 233, 34], Str [233]), (lit ''1'', Num (Finite 1)),
       (final_text, final_event), (message_text, message_event),
       (not_json_raw, not_json_response)]"

definition sample_stringify :: "jsval \<Rightarrow> js_error + jsval" where
  "sample_stringify = stringify_at [(not_json_response, not_json_raw)]"

text \<open>
  The bytes of a frame, \<open>data: \<close> followed by that JSON string and the blank line,
  cut inside the two-byte character (195, 169) and inside the delimiter.
\<close>

definition sample_chunks :: "8 word list list" where
  "sample_chunks =
     [[0x64, 0x61, 0x74, 0x61, 0x3A, 0x20, 0x22, 0xC3], [0xA9, 0x22, 0x0A], [0x0A]]"

section \<open>The component's initial state\<close>

text \<open>The initial values of the \<open>useState\<close> and \<open>useRef\<close> cells of the stream.\<close>

definition initial :: consumer where
  "initial = \<lparr>error = Null, events = [], finalJson = Null, transcript = [],
     isStreaming = False, controllers = [], controllerRef = None\<rparr>"

section \<open>Properties of the values\<close>

lemma lit_eq_iff [simp]: "lit a = lit b \<longleftrightarrow> a = b"
  by (simp add: lit_def inj_map_eq_map inj_on_def)

lemma lit_append: "lit a @ lit b = lit (a @ b)"
  by (simp add: lit_def)

lemma lit_Nil [simp]: "lit [] = []"
  by (simp add: lit_def)

lemma lit_eq_Nil [simp]: "lit a = [] \<longleftrightarrow> a = []"
  by (simp add: lit_def)

lemma member_Obj: "member (Obj ps) k = Inr (own_prop (Obj ps) k)"
  by (simp add: member_def)

lemma and_then_Inr: "and_then (Inr x) f = f x"
  by (simp add: and_then_def)

lemma opt_member_field: "opt_member v k = (case field v k of Some x \<Rightarrow> x | None \<Rightarrow> Undefined)"
  by (cases v) (simp_all add: opt_member_def field_def)

lemma own_prop_field: "own_prop v k = (case field v k of Some x \<Rightarrow> x | None \<Rightarrow> Undefined)"
  by (cases v) (simp_all add: field_def)

lemma field_Undefined [simp]: "field Undefined k = None"
  by (simp add: field_def)

lemma string_field_Undefined [simp]: "string_field Undefined k = None"
  by (simp add: string_field_def)

lemma element0_Undefined [simp]: "element0 Undefined = None"
  by (simp add: element0_def)

lemma as_string_opt_member: "as_string (opt_member v k) = string_field v k"
  by (cases v)
     (auto simp: opt_member_def string_field_def field_def split: option.splits jsval.splits)

lemma as_string_own_prop: "as_string (own_prop v k) = string_field v k"
  by (cases v) (auto simp: string_field_def field_def split: option.splits jsval.splits)

lemma field_opt_index0:
  "field (opt_index0 v) k = (case element0 v of Some x \<Rightarrow> field x k | None \<Rightarrow> None)"
  by (cases v) (auto simp: element0_def field_def split: list.splits option.splits)

section \<open>Properties of the text extraction\<close>

lemma block_text_string_field: "block_text = (\<lambda>c. string_field c (lit ''text''))"
  by (rule ext) (simp add: block_text_def as_string_opt_member)

lemma join_truthy_map_filter: "join_truthy (map f cs) = concat (List.map_filter f cs)"
  by (induction cs) (auto simp: join_truthy_def List.map_filter_simps split: option.splits)

lemma content_path:
  "opt_member (opt_index0 (opt_member (opt_member payload (lit ''response''))
          (lit ''output''))) (lit ''content'')
   = (case field payload (lit ''response'') of
        None \<Rightarrow> Undefined
      | Some r \<Rightarrow>
          (case field r (lit ''output'') of
             None \<Rightarrow> Undefined
           | Some out \<Rightarrow>
               (case element0 out of
                  None \<Rightarrow> Undefined
                | Some b \<Rightarrow>
                    (case field b (lit ''content'') of None \<Rightarrow> Undefined | Some c \<Rightarrow> c))))"
  by (simp add: opt_member_field field_opt_index0 split: option.splits)

lemma content_parts_blocks:
  "content_parts payload =
     Inr (case content_blocks payload of
            Some cs \<Rightarrow>
              (if concat (List.map_filter (\<lambda>c. string_field c (lit ''text'')) cs) \<noteq> []
               then Some (concat (List.map_filter (\<lambda>c. string_field c (lit ''text'')) cs))
               else None)
          | None \<Rightarrow> None)"
  unfolding content_parts_def Let_def content_path content_blocks_def
  by (simp add: join_truthy_map_filter block_text_string_field split: option.splits jsval.splits)

lemma data_text:
  "and_then (if truthy d then member d k else Inr Undefined) f = f (opt_member d k)"
  by (cases d) (auto simp: and_then_def member_def opt_member_def)

lemma extract_Obj_nf:
  "extractTextFromPayload (Obj ps) =
     Inr (case as_string (own_prop (Obj ps) (lit ''delta'')) of
            Some s \<Rightarrow> s
          | None \<Rightarrow>
              (case as_string (own_prop (Obj ps) (lit ''text'')) of
                 Some s \<Rightarrow> s
               | None \<Rightarrow>
                   (case as_string (opt_member (own_prop (Obj ps) (lit ''data'')) (lit ''text'')) of
                      Some s \<Rightarrow> s
                    | None \<Rightarrow>
                        (case try_catch (content_parts (Obj ps)) None of
                           Some parts \<Rightarrow> parts
                         | None \<Rightarrow> []))))"
  unfolding extractTextFromPayload_def
  by (simp add: member_Obj and_then_Inr data_text del: own_prop.simps split: option.splits)

lemma data_text_field:
  "as_string (opt_member (own_prop v (lit ''data'')) k) =
     (case field v (lit ''data'') of Some d \<Rightarrow> string_field d k | None \<Rightarrow> None)"
  by (simp add: as_string_opt_member own_prop_field split: option.splits)

lemma extract_Obj: "extractTextFromPayload (Obj ps) = Inr (first_applicable_text (Obj ps))"
  unfolding extract_Obj_nf first_applicable_text_def as_string_own_prop data_text_field
    content_parts_blocks
  by (simp add: try_catch_def split: option.splits)

lemma extract_eq: "extractTextFromPayload p = Inr (first_applicable_text p)"
proof (cases p)
  case (Obj ps)
  then show ?thesis by (simp only: extract_Obj)
next
  case (Arr xs)
  have "content_blocks (Arr xs) = None"
    by (simp add: content_blocks_def field_def)
  then show ?thesis
    unfolding Arr extractTextFromPayload_def first_applicable_text_def content_parts_blocks
    by (simp add: member_def and_then_def try_catch_def string_field_def field_def)
qed (simp_all add: extractTextFromPayload_def first_applicable_text_def string_field_def
      content_blocks_def field_def)

lemmas first_applicable_defs =
  first_applicable_text_def string_field_def field_def content_blocks_def element0_def
  List.map_filter_simps

text \<open>
  Claim C2.  \<open>extractTextFromPayload\<close> returns for every payload, without throwing,
  the first applicable of: a top-level string \<open>delta\<close>; a top-level string \<open>text\<close>;
  a string \<open>text\<close> under \<open>data\<close>; the concatenation of the string \<open>text\<close> fields
  of the blocks of the array at \<open>response.output[0].content\<close>; the empty string.
  On \<open>{"delta":"ab"}\<close> it gives \<open>"ab"\<close>, on \<open>{"text":"cd"}\<close> \<open>"cd"\<close>, on
  \<open>{"data":{"text":"ef"}}\<close> \<open>"ef"\<close>, on
  \<open>{"response":{"output":[{"content":[{"text":"g"},{"text":"h"}]}]}}\<close> \<open>"gh"\<close>, and
  on \<open>{}\<close> and \<open>null\<close> the empty string.
\<close>

theorem extractTextFromPayload_first_applicable:
  "extractTextFromPayload payload = Inr (first_applicable_text payload) \<and>
   extractTextFromPayload (Obj [(lit ''delta'', Str (lit ''ab''))]) = Inr (lit ''ab'') \<and>
   extractTextFromPayload (Obj [(lit ''text'', Str (lit ''cd''))]) = Inr (lit ''cd'') \<and>
   extractTextFromPayload (Obj [(lit ''data'', Obj [(lit ''text'', Str (lit ''ef''))])])
     = Inr (lit ''ef'') \<and>
   extractTextFromPayload
     (Obj [(lit ''response'', Obj [(lit ''output'',
        Arr [Obj [(lit ''content'',
          Arr [Obj [(lit ''text'', Str (lit ''g''))], Obj [(lit ''text'', Str (lit ''h''))]])]])])])
     = Inr (lit ''gh'') \<and>
   extractTextFromPayload (Obj []) = Inr [] \<and>
   extractTextFromPayload Null = Inr []"
  unfolding extract_eq by (simp add: first_applicable_defs lit_append)

theorem extractTextFromPayload_first_applicable_witness:
  "extractTextFromPayload
     (Obj [(lit ''delta'', Num (Finite 1)), (lit ''data'', Obj [(lit ''text'', Str (lit ''ef''))]),
           (lit ''response'', Null)])
   = Inr (lit ''ef'')"
  using extractTextFromPayload_first_applicable
    [of "Obj [(lit ''delta'', Num (Finite 1)), (lit ''data'', Obj [(lit ''text'', Str (lit ''ef''))]),
           (lit ''response'', Null)]"]
  by (simp add: first_applicable_defs)

section \<open>Properties of the framing\<close>

lemma cons_hd_nonempty [simp]: "cons_hd a ps \<noteq> []"
  by (cases ps) simp_all

lemma js_split_nonempty: "sep \<noteq> [] \<Longrightarrow> js_split sep s \<noteq> []"
  by (subst js_split.simps) simp

lemma js_split_short: "length s < length sep \<Longrightarrow> js_split sep s = [s]"
proof (induction s)
  case Nil
  then show ?case by (subst js_split.simps) auto
next
  case (Cons a s)
  then have np: "\<not> prefix sep (a # s)"
    by (auto dest: prefix_length_le)
  from Cons have "js_split sep s = [s]" by simp
  with np Cons.prems show ?case
    by (subst js_split.simps) auto
qed

lemma js_split_single: "sep \<noteq> [] \<Longrightarrow> js_split sep s = [p] \<Longrightarrow> p = s"
proof (induction sep s arbitrary: p rule: js_split.induct)
  case (1 sep s)
  show ?case
  proof (cases "s = []")
    case True
    with 1(3,4) show ?thesis by (subst (asm) js_split.simps) simp
  next
    case ne: False
    show ?thesis
    proof (cases "prefix sep s")
      case True
      with 1(3,4) ne js_split_nonempty[OF 1(3), of "drop (length sep) s"] show ?thesis
        by (subst (asm) js_split.simps) simp
    next
      case False
      with 1(3,4) ne have c: "cons_hd (hd s) (js_split sep (tl s)) = [p]"
        by (subst (asm) js_split.simps) simp
      then obtain p' where p': "js_split sep (tl s) = [p']" "p = hd s # p'"
        using js_split_nonempty[OF 1(3), of "tl s"]
        by (cases "js_split sep (tl s)") (auto split: list.splits)
      from 1(2)[OF 1(3) ne False 1(3) p'(1)] p'(2) ne show ?thesis by simp
    qed
  qed
qed

lemma js_split_append:
  assumes "sep \<noteq> []"
  shows "js_split sep (s @ t) =
           butlast (js_split sep s) @ js_split sep (last (js_split sep s) @ t)"
  using assms
proof (induction sep s rule: js_split.induct)
  case (1 sep s)
  show ?case
  proof (cases "s = []")
    case True
    then have "js_split sep s = [[]]" using 1(3) by (subst js_split.simps) simp
    with True show ?thesis by simp
  next
    case ne: False
    show ?thesis
    proof (cases "prefix sep s")
      case True
      then have p2: "prefix sep (s @ t)" by (simp add: prefix_prefix)
      from True have len: "length sep \<le> length s" by (rule prefix_length_le)
      have s1: "js_split sep s = [] # js_split sep (drop (length sep) s)"
        using 1(3) ne True by (subst js_split.simps) simp
      have s2: "js_split sep (s @ t) = [] # js_split sep (drop (length sep) s @ t)"
        using 1(3) ne p2 len by (subst js_split.simps) simp
      have ih: "js_split sep (drop (length sep) s @ t) =
          butlast (js_split sep (drop (length sep) s)) @
          js_split sep (last (js_split sep (drop (length sep) s)) @ t)"
        using 1(1)[OF 1(3) ne True 1(3)] .
      show ?thesis
        unfolding s1 s2 ih using js_split_nonempty[OF 1(3), of "drop (length sep) s"] by simp
    next
      case np: False
      have s1: "js_split sep s = cons_hd (hd s) (js_split sep (tl s))"
        using 1(3) ne np by (subst js_split.simps) simp
      show ?thesis
      proof (cases "length s < length sep")
        case True
        then show ?thesis by (simp add: js_split_short)
      next
        case False
        then have np2: "\<not> prefix sep (s @ t)"
          using np by (metis not_le_imp_less prefix_length_prefix prefixI)
        have s2: "js_split sep (s @ t) = cons_hd (hd s) (js_split sep (tl s @ t))"
          using 1(3) ne np2 by (subst js_split.simps) simp
        have ih: "js_split sep (tl s @ t) =
          butlast (js_split sep (tl s)) @ js_split sep (last (js_split sep (tl s)) @ t)"
          using 1(2)[OF 1(3) ne np 1(3)] .
        show ?thesis
        proof (cases "js_split sep (tl s)")
          case Nil
          with js_split_nonempty[OF 1(3)] show ?thesis by blast
        next
          case (Cons p ps)
          show ?thesis
          proof (cases ps)
            case Nil
            with Cons have single: "js_split sep (tl s) = [p]" by simp
            have "js_split sep s = [hd s # p]" unfolding s1 single by simp
            moreover from this have "hd s # p = s"
              by (rule js_split_single[OF 1(3)])
            ultimately show ?thesis by simp
          next
            case (Cons q qs)
            with \<open>js_split sep (tl s) = p # ps\<close> show ?thesis
              unfolding s1 s2 ih by simp
          qed
        qed
      qed
    qed
  qed
qed

lemma decode_append:
  "decode dstep d (a @ b) =
     (case decode dstep d a of (d1, o1) \<Rightarrow>
        (case decode dstep d1 b of (d2, o2) \<Rightarrow> (d2, o1 @ o2)))"
  by (induction a arbitrary: d) (auto split: prod.splits)

lemma process_frames_append:
  "process_frames parse st (xs @ ys) = process_frames parse (process_frames parse st xs) ys"
  by (simp add: process_frames_def)

lemma frame_delim_nonempty: "frame_delim \<noteq> []"
  by (simp add: frame_delim_def)

lemma read_step_append:
  "read_step parse dstep (read_step parse dstep l a) b = read_step parse dstep l (a @ b)"
proof -
  obtain d1 t1 where a: "decode dstep (decoder l) a = (d1, t1)" by force
  obtain d2 t2 where b: "decode dstep d1 b = (d2, t2)" by force
  have ab: "decode dstep (decoder l) (a @ b) = (d2, t1 @ t2)"
    by (simp add: decode_append a b)
  let ?p1 = "js_split frame_delim (buffer l @ t1)"
  let ?p2 = "js_split frame_delim (last ?p1 @ t2)"
  have ne1: "?p1 \<noteq> []" and ne2: "?p2 \<noteq> []"
    by (simp_all add: js_split_nonempty frame_delim_nonempty)
  have whole: "js_split frame_delim (buffer l @ t1 @ t2) = butlast ?p1 @ ?p2"
    using js_split_append[OF frame_delim_nonempty, of "buffer l @ t1" t2] by simp
  show ?thesis
    using ne1 ne2
    by (simp add: read_step_def a b ab whole Let_def butlast_append process_frames_append)
qed

lemma read_step_Nil:
  "read_step parse dstep \<lparr>app = st, buffer = [], decoder = d\<rparr> [] = \<lparr>app = st, buffer = [], decoder = d\<rparr>"
  by (simp add: read_step_def js_split.simps[of _ "[]"] frame_delim_def process_frames_def)

lemma foldl_read_step:
  "foldl (read_step parse dstep) (read_step parse dstep l a) cs =
     read_step parse dstep l (a @ concat cs)"
  by (induction cs arbitrary: a) (simp_all add: read_step_append)

lemma foldl_read_step_init:
  "foldl (read_step parse dstep) \<lparr>app = st, buffer = [], decoder = d\<rparr> cs =
     read_step parse dstep \<lparr>app = st, buffer = [], decoder = d\<rparr> (concat cs)"
  using foldl_read_step[of parse dstep "\<lparr>app = st, buffer = [], decoder = d\<rparr>" "[]" cs]
  by (simp add: read_step_Nil)

lemma read_loop_reader_of:
  "i \<le> length cs \<Longrightarrow>
   read_loop parse dstep (reader_of cs fin) i l =
     Some (fin, foldl (read_step parse dstep) l (drop i cs))"
proof (induction "length cs - i" arbitrary: i l)
  case 0
  then have "i = length cs" by simp
  then show ?case
    by (subst read_loop.simps) (simp add: reader_of_def split: option.splits)
next
  case (Suc n)
  then have lt: "i < length cs" by simp
  then have "read_loop parse dstep (reader_of cs fin) i l =
      read_loop parse dstep (reader_of cs fin) (Suc i) (read_step parse dstep l (cs ! i))"
    by (subst read_loop.simps) (simp add: reader_of_def)
  also have "\<dots> = Some (fin, foldl (read_step parse dstep) (read_step parse dstep l (cs ! i))
      (drop (Suc i) cs))"
    using Suc lt by simp
  also have "drop i cs = cs ! i # drop (Suc i) cs"
    using lt by (simp add: Cons_nth_drop_Suc)
  then have "foldl (read_step parse dstep) (read_step parse dstep l (cs ! i)) (drop (Suc i) cs)
     = foldl (read_step parse dstep) l (drop i cs)" by simp
  finally show ?case .
qed


lemma startStream_reader_of:
  "startStream parse dstep d0 (Response True status (Some (reader_of cs fin))) st =
     Some (on_finally
       ((case fin of None \<Rightarrow> (\<lambda>s. s) | Some e \<Rightarrow> on_catch e)
          (app (read_step parse dstep
             \<lparr>app = (startStream_begin st)\<lparr>isStreaming := True\<rparr>, buffer = [], decoder = d0\<rparr>
             (concat cs)))))"
  by (simp add: startStream_def read_loop_reader_of foldl_read_step_init split: option.splits)

lemma js_split_Nil: "sep \<noteq> [] \<Longrightarrow> js_split sep [] = [[]]"
  by (subst js_split.simps) simp

lemma js_split_Cons:
  "sep \<noteq> [] \<Longrightarrow> js_split sep (c # cs) =
     (if prefix sep (c # cs) then [] # js_split sep (drop (length sep) (c # cs))
      else cons_hd c (js_split sep cs))"
  by (subst js_split.simps) simp

lemmas utf8_defs =
  utf8_step_def utf8_lead_def utf8_emit_def utf8_reset_def utf8_new_def utf16_units_def

lemmas frame_defs =
  read_step_def process_frames_def process_frame_def process_event_def trim_def strip_data_def
  is_ws_def frame_delim_def js_split_Nil js_split_Cons lit_def member_def

lemmas sample_defs =
  sample_parse_def sample_stringify_def sample_chunks_def final_text_def final_event_def
  message_text_def message_event_def jane_def not_json_response_def not_json_raw_def
  stringify_at_def initial_def

text \<open>
  Claim C1.  However the bytes of a stream are cut into chunks, \<open>startStream\<close> ends
  in the state it ends in when the same bytes arrive as one chunk: the same event
  log in the same order, the same transcript and the same final result.  This holds
  for every byte stream and every cut, inside a multi-byte character and inside the
  delimiter included, for a stream that ends and for one whose last read is rejected.
\<close>

theorem startStream_chunking:
  "\<exists>st'. startStream parse dstep d0 (Response True status (Some (reader_of chunks fin))) st
            = Some st' \<and>
          startStream parse dstep d0 (Response True status (Some (reader_of [concat chunks] fin))) st
            = Some st'"
  by (simp add: startStream_reader_of)

theorem startStream_chunking_witness:
  "startStream sample_parse utf8_step utf8_new
     (Response True 200 (Some (reader_of sample_chunks None))) initial
   = Some (initial\<lparr>events := [Str [233]], controllers := [False]\<rparr>) \<and>
   startStream sample_parse utf8_step utf8_new
     (Response True 200 (Some (reader_of [concat sample_chunks] None))) initial
   = Some (initial\<lparr>events := [Str [233]], controllers := [False]\<rparr>)"
proof -
  have whole: "startStream sample_parse utf8_step utf8_new
     (Response True 200 (Some (reader_of [concat sample_chunks] None))) initial
   = Some (initial\<lparr>events := [Str [233]], controllers := [False]\<rparr>)"
    by (simp add: startStream_reader_of startStream_begin_def on_finally_def frame_defs utf8_defs
        sample_defs Let_def)
  with startStream_chunking [of sample_parse utf8_step utf8_new 200 sample_chunks None initial]
  show ?thesis by simp
qed

section \<open>Properties of the events\<close>

lemma process_event_final:
  assumes "member evt (lit ''event'') = Inr (Str (lit ''final''))"
  shows "process_event st evt =
     st\<lparr>events := events st @ [evt],
        finalJson := nullish_or (own_prop evt (lit ''data'')) Null\<rparr>"
  using assms by (auto simp: process_event_def member_def Let_def split: if_splits)

lemma finalJson_process_event:
  "finalJson (process_event st evt) =
     (if member evt (lit ''event'') = Inr (Str (lit ''final''))
      then nullish_or (own_prop evt (lit ''data'')) Null else finalJson st)"
  by (auto simp: process_event_def member_def Let_def extract_eq)

text \<open>
  Claim C6.  Processing a \<open>final\<close> event replaces the final-result state with the
  event's \<open>data\<close> field, whatever the state held before, and with \<open>null\<close> when the
  field is absent or \<open>null\<close>; the event is logged and the transcript is left alone.
  The state before plays no part in the new value, so the last \<open>final\<close> event wins.
\<close>

theorem final_event_replaces:
  assumes "member evt (lit ''event'') = Inr (Str (lit ''final''))"
  shows "finalJson (process_event st evt) = nullish_or (own_prop evt (lit ''data'')) Null \<and>
         (field evt (lit ''data'') = None \<or> field evt (lit ''data'') = Some Null
            \<longrightarrow> finalJson (process_event st evt) = Null) \<and>
         (\<forall>d. field evt (lit ''data'') = Some d \<and> \<not> nullish d
            \<longrightarrow> finalJson (process_event st evt) = d) \<and>
         events (process_event st evt) = events st @ [evt] \<and>
         transcript (process_event st evt) = transcript st"
  using assms
  by (auto simp: process_event_final own_prop_field nullish_or_def split: option.splits)

theorem final_event_replaces_witness:
  "member final_event (lit ''event'') = Inr (Str (lit ''final'')) \<and>
   finalJson (process_event
     (initial\<lparr>finalJson := Obj [(lit ''full_name'', Str (lit ''Old Name''))]\<rparr>) final_event) = jane \<and>
   finalJson (process_event (initial\<lparr>finalJson := jane\<rparr>)
     (Obj [(lit ''event'', Str (lit ''final'')), (lit ''data'', Null)])) = Null"
proof -
  have h: "member final_event (lit ''event'') = Inr (Str (lit ''final''))"
    by (simp add: final_event_def member_def)
  have h': "member (Obj [(lit ''event'', Str (lit ''final'')), (lit ''data'', Null)]) (lit ''event'')
      = Inr (Str (lit ''final''))"
    by (simp add: member_def)
  show ?thesis
    using h final_event_replaces [OF h,
        of "initial\<lparr>finalJson := Obj [(lit ''full_name'', Str (lit ''Old Name''))]\<rparr>"]
      final_event_replaces [OF h', of "initial\<lparr>finalJson := jane\<rparr>"]
    by (simp add: final_event_def nullish_or_def jane_def)
qed

text \<open>
  Claim C10.  A payload whose top-level \<open>delta\<close> is the empty string gives the empty
  string, whatever its \<open>text\<close>, \<open>data.text\<close> or content blocks carry, and a
  \<open>message\<close> event with such a payload is logged and appends nothing to the transcript.
\<close>

theorem empty_delta_wins:
  assumes "field payload (lit ''delta'') = Some (Str [])"
  shows "extractTextFromPayload payload = Inr [] \<and>
         process_event st (Obj [(lit ''event'', Str (lit ''message'')), (lit ''payload'', payload)])
           = st\<lparr>events := events st @
               [Obj [(lit ''event'', Str (lit ''message'')), (lit ''payload'', payload)]]\<rparr>"
proof -
  have e: "extractTextFromPayload payload = Inr []"
    using assms by (simp add: extract_eq first_applicable_text_def string_field_def)
  then show ?thesis
    by (simp add: process_event_def member_def Let_def)
qed

theorem empty_delta_wins_witness:
  "field (Obj [(lit ''delta'', Str []), (lit ''text'', Str (lit ''later''))]) (lit ''delta'')
     = Some (Str []) \<and>
   extractTextFromPayload (Obj [(lit ''delta'', Str []), (lit ''text'', Str (lit ''later''))])
     = Inr [] \<and>
   transcript (process_event (initial\<lparr>transcript := lit ''Jane''\<rparr>)
     (Obj [(lit ''event'', Str (lit ''message'')),
           (lit ''payload'', Obj [(lit ''delta'', Str []), (lit ''text'', Str (lit ''later''))])]))
     = lit ''Jane''"
proof -
  have h: "field (Obj [(lit ''delta'', Str []), (lit ''text'', Str (lit ''later''))]) (lit ''delta'')
     = Some (Str [])"
    by (simp add: field_def)
  show ?thesis
    using h empty_delta_wins [OF h, of "initial\<lparr>transcript := lit ''Jane''\<rparr>"]
    by simp
qed

section \<open>Properties of the frames\<close>

lemma process_frame_dropped:
  assumes "\<not> prefix (lit ''data:'') (trim frame) \<or>
           (\<exists>e. parse (Str (strip_data (trim frame))) = Inl e)"
  shows "process_frame parse st frame = st"
  using assms by (auto simp: process_frame_def Let_def)

lemma events_process_event: "events (process_event st evt) = events st @ [evt]"
  by (auto simp: process_event_def Let_def split: sum.splits)

lemma transcript_process_event_message:
  assumes "member evt (lit ''event'') = Inr (Str (lit ''message''))"
    and "truthy (own_prop evt (lit ''payload''))"
  shows "transcript (process_event st evt) =
     transcript st @ first_applicable_text (own_prop evt (lit ''payload''))"
  using assms by (auto simp: process_event_def Let_def extract_eq member_def split: if_splits)

lemma process_frame_parsed:
  assumes "prefix (lit ''data:'') (trim good)"
    and "parse (Str (strip_data (trim good))) = Inr evt"
  shows "process_frame parse st good = process_event st evt"
  using assms by (simp add: process_frame_def Let_def)

text \<open>
  Claim C7.  A frame that, once trimmed, does not begin with \<open>data:\<close>, and a
  \<open>data:\<close> frame whose text \<open>JSON.parse\<close> rejects, leave the whole state as it
  was: no event, no transcript change.  Processing goes on: the frames around it are
  processed as if it were not there, and a valid frame that follows it is logged,
  appends its text to the transcript when it is a \<open>message\<close> event with a payload,
  and sets the final result when it is a \<open>final\<close> event.
\<close>

theorem dropped_frame_then_valid_frames:
  assumes "\<not> prefix (lit ''data:'') (trim frame) \<or>
           (\<exists>e. parse (Str (strip_data (trim frame))) = Inl e)"
  shows "process_frame parse st frame = st \<and>
         process_frames parse st (before @ frame # rest) =
           process_frames parse st (before @ rest) \<and>
         (\<forall>good evt. prefix (lit ''data:'') (trim good) \<and>
             parse (Str (strip_data (trim good))) = Inr evt \<longrightarrow>
           process_frames parse st [frame, good] = process_event st evt \<and>
           events (process_frames parse st [frame, good]) = events st @ [evt] \<and>
           (member evt (lit ''event'') = Inr (Str (lit ''message'')) \<and>
            truthy (own_prop evt (lit ''payload'')) \<longrightarrow>
              transcript (process_frames parse st [frame, good]) =
                transcript st @ first_applicable_text (own_prop evt (lit ''payload''))) \<and>
           (member evt (lit ''event'') = Inr (Str (lit ''final'')) \<longrightarrow>
              finalJson (process_frames parse st [frame, good]) =
                nullish_or (own_prop evt (lit ''data'')) Null))"
proof -
  have d: "process_frame parse st frame = st" for st
    using assms by (rule process_frame_dropped)
  have "process_frames parse st [frame, good] = process_event st evt"
    if "prefix (lit ''data:'') (trim good)" "parse (Str (strip_data (trim good))) = Inr evt"
    for good evt
    using that by (simp add: process_frames_def d process_frame_parsed)
  then show ?thesis
    by (auto simp: d process_frames_def events_process_event transcript_process_event_message
        finalJson_process_event)
qed

theorem dropped_frame_then_valid_frames_witness:
  "prefix (lit ''data:'') (trim (lit ''data: {bad'')) \<and>
   sample_parse (Str (strip_data (trim (lit ''data: {bad'')))) = Inl SyntaxError \<and>
   process_frames sample_parse initial
     [lit ''event: end'', lit ''data: {bad'', lit ''data: '' @ message_text,
      lit ''data: '' @ final_text]
     = initial\<lparr>events := [message_event, final_event], finalJson := jane,
         transcript := lit ''Jane''\<rparr>"
proof -
  have p: "prefix (lit ''data:'') (trim (lit ''data: {bad''))"
    by (simp add: frame_defs)
  have e: "sample_parse (Str (strip_data (trim (lit ''data: {bad'')))) = Inl SyntaxError"
    by (simp add: frame_defs sample_defs)
  have h: "\<not> prefix (lit ''data:'') (trim (lit ''data: {bad'')) \<or>
           (\<exists>e. sample_parse (Str (strip_data (trim (lit ''data: {bad'')))) = Inl e)"
    using e by blast
  have rest: "process_frames sample_parse initial
     [lit ''event: end'', lit ''data: '' @ message_text, lit ''data: '' @ final_text]
     = initial\<lparr>events := [message_event, final_event], finalJson := jane,
         transcript := lit ''Jane''\<rparr>"
    by (simp add: frame_defs sample_defs extractTextFromPayload_def and_then_def nullish_or_def)
  show ?thesis
    using p e rest
      dropped_frame_then_valid_frames [where frame = "lit ''data: {bad''" and parse = sample_parse
        and st = initial and before = "[lit ''event: end'']"
        and rest = "[lit ''data: '' @ message_text, lit ''data: '' @ final_text]", OF h]
    by simp
qed

section \<open>Properties of the final result\<close>

text \<open>
  Claim C5, as stated, fails: the consumer stores the \<open>data\<close> field of a \<open>final\<close>
  event as it comes.  An event that carries only a full name makes that partial
  object the final result.
\<close>

theorem partial_final_is_surfaced:
  "finalJson (process_event initial
     (Obj [(lit ''event'', Str (lit ''final'')),
           (lit ''data'', Obj [(lit ''full_name'', Str (lit ''Jane Doe''))])]))
     = Obj [(lit ''full_name'', Str (lit ''Jane Doe''))] \<and>
   \<not> complete_or_null (Obj [(lit ''full_name'', Str (lit ''Jane Doe''))])"
  by (simp add: finalJson_process_event member_def nullish_or_def complete_or_null_def
      VisaIntakeSchema_def string_prop_def)

text \<open>
  Claim C5, amended.  The consumer checks nothing: the final result is the \<open>data\<close>
  field of the latest \<open>final\<close> event, or \<open>null\<close>.  It is a complete Structured
  Intake Result or \<open>null\<close> after any frames, provided it was before and every
  \<open>final\<close> event among them carries a complete result or \<open>null\<close>.
\<close>

theorem final_result_complete_if_events_are:
  assumes "complete_or_null (finalJson st)"
    and "\<forall>f\<in>set frames. \<forall>evt. prefix (lit ''data:'') (trim f) \<and>
           parse (Str (strip_data (trim f))) = Inr evt \<and>
           member evt (lit ''event'') = Inr (Str (lit ''final''))
           \<longrightarrow> complete_or_null (nullish_or (own_prop evt (lit ''data'')) Null)"
  shows "complete_or_null (finalJson (process_frames parse st frames))"
  using assms
proof (induction frames arbitrary: st)
  case Nil
  then show ?case by (simp add: process_frames_def)
next
  case (Cons f fs)
  have "complete_or_null (finalJson (process_frame parse st f))"
    using Cons.prems
    by (auto simp: process_frame_def Let_def finalJson_process_event split: sum.splits)
  with Cons show ?case by (simp add: process_frames_def)
qed

lemma complete_jane: "VisaIntakeSchema jane"
  by (simp add: VisaIntakeSchema_def jane_def string_prop_def matches_dob_def is_digit_def lit_def)

theorem final_result_complete_if_events_are_witness:
  "complete_or_null (finalJson initial) \<and>
   process_frames sample_parse initial [lit ''data: '' @ final_text]
     = initial\<lparr>events := [final_event], finalJson := jane\<rparr> \<and>
   complete_or_null (finalJson (process_frames sample_parse initial [lit ''data: '' @ final_text]))"
proof -
  have i: "complete_or_null (finalJson initial)"
    by (simp add: complete_or_null_def initial_def)
  have run: "process_frames sample_parse initial [lit ''data: '' @ final_text]
     = initial\<lparr>events := [final_event], finalJson := jane\<rparr>"
    by (simp add: frame_defs sample_defs nullish_or_def)
  have p: "prefix (lit ''data:'') (trim (lit ''data: '' @ final_text))"
    by (simp add: frame_defs sample_defs)
  have t: "sample_parse (Str (strip_data (trim (lit ''data: '' @ final_text)))) = Inr final_event"
    by (simp add: frame_defs sample_defs)
  have d: "nullish_or (own_prop final_event (lit ''data'')) Null = jane"
    by (simp add: final_event_def nullish_or_def jane_def)
  have h: "\<forall>f\<in>set [lit ''data: '' @ final_text]. \<forall>evt. prefix (lit ''data:'') (trim f) \<and>
           sample_parse (Str (strip_data (trim f))) = Inr evt \<and>
           member evt (lit ''event'') = Inr (Str (lit ''final''))
           \<longrightarrow> complete_or_null (nullish_or (own_prop evt (lit ''data'')) Null)"
    using t d complete_jane by (simp add: complete_or_null_def)
  show ?thesis
    using i run final_result_complete_if_events_are [OF i h] by simp
qed

section \<open>Properties of cancellation\<close>




lemma controllers_process_event:
  "controllers (process_event st evt) = controllers st \<and>
   controllerRef (process_event st evt) = controllerRef st"
  by (auto simp: process_event_def Let_def split: sum.splits)

lemma controllers_process_frames:
  "controllers (process_frames parse st fs) = controllers st \<and>
   controllerRef (process_frames parse st fs) = controllerRef st"
proof (induction fs arbitrary: st)
  case Nil
  then show ?case by (simp add: process_frames_def)
next
  case (Cons f fs)
  have "controllers (process_frame parse st f) = controllers st \<and>
        controllerRef (process_frame parse st f) = controllerRef st"
    by (simp add: process_frame_def Let_def controllers_process_event split: sum.splits)
  with Cons [of "process_frame parse st f"] show ?case by (simp add: process_frames_def)
qed

lemma controllers_read_step:
  "controllers (app (read_step parse dstep l v)) = controllers (app l) \<and>
   controllerRef (app (read_step parse dstep l v)) = controllerRef (app l)"
  by (simp add: read_step_def Let_def controllers_process_frames split: prod.splits)



lemma read_loop_signal_no_stop:
  assumes "\<not> aborted (app l) c" and "i \<le> length cs"
  shows "read_loop_signal parse dstep (reader_of cs fin) (\<lambda>i. False) c i l =
     read_loop parse dstep (reader_of cs fin) i l"
  using assms
proof (induction "length cs - i" arbitrary: i l)
  case 0
  then have "i = length cs" by simp
  with 0 show ?case
    by (subst read_loop_signal.simps, subst read_loop.simps)
       (simp add: reader_of_def split: option.splits)
next
  case (Suc n)
  then have lt: "i < length cs" by simp
  have "\<not> aborted (app (read_step parse dstep l (cs ! i))) c"
    using Suc.prems by (simp add: aborted_def controllers_read_step)
  with Suc lt show ?case
    by (subst read_loop_signal.simps, subst read_loop.simps) (simp add: reader_of_def)
qed

lemma startStream_signal_no_stop:
  "startStream_signal parse dstep d0 (Response ok status (Some (reader_of cs fin))) False
     (\<lambda>i. False) st
   = startStream parse dstep d0 (Response ok status (Some (reader_of cs fin))) st"
  by (simp add: startStream_signal_def startStream_def Let_def aborted_def startStream_begin_def
      read_loop_signal_no_stop)




section \<open>Properties of the relay's extraction\<close>

lemma opt_member_or_undefined: "opt_member v k = or_undefined (field v k)"
  by (simp add: opt_member_field or_undefined_def)

lemma field_or_undefined: "field (or_undefined x) k = Option.bind x (\<lambda>v. field v k)"
  by (cases x) (simp_all add: or_undefined_def)

lemma element0_or_undefined: "element0 (or_undefined x) = Option.bind x element0"
  by (cases x) (simp_all add: or_undefined_def)

lemma field_opt_index0_bind: "field (opt_index0 v) k = Option.bind (element0 v) (\<lambda>x. field x k)"
  by (simp add: field_opt_index0 split: option.splits)

lemma structured_path:
  "opt_member (opt_index0 (opt_member (opt_index0 (opt_member r (lit ''output'')))
      (lit ''content''))) k =
     or_undefined (Option.bind (structured_content r) (\<lambda>c. field c k))"
  unfolding structured_content_def
  by (simp add: opt_member_or_undefined field_opt_index0_bind element0_or_undefined
      field_or_undefined)

lemma member_typed:
  "opt_member c k = Str s \<Longrightarrow> member c k' = Inr (opt_member c k')"
  by (cases c) (auto simp: member_def opt_member_def)

lemma structured_attempt:
  "(let content = opt_index0 (opt_member (opt_index0 (opt_member r (lit ''output''))) (lit ''content''))
    in if opt_member content (lit ''type'') = Str (lit ''output_json'')
       then member content (lit ''json'') else X)
   = (case attempt_structured r of Some v \<Rightarrow> Inr v | None \<Rightarrow> X)"
proof (cases "structured_content r")
  case None
  then show ?thesis
    by (simp add: Let_def structured_path attempt_structured_def or_undefined_def)
next
  case (Some c)
  show ?thesis
  proof (cases "field c (lit ''type'') = Some (Str (lit ''output_json''))")
    case True
    then have t: "opt_member (opt_index0 (opt_member (opt_index0 (opt_member r (lit ''output'')))
        (lit ''content''))) (lit ''type'') = Str (lit ''output_json'')"
      by (simp add: structured_path Some or_undefined_def)
    show ?thesis
      unfolding Let_def
      by (simp add: t member_typed[OF t] structured_path attempt_structured_def Some True
          or_undefined_def)
  next
    case False
    then have "opt_member (opt_index0 (opt_member (opt_index0 (opt_member r (lit ''output'')))
        (lit ''content''))) (lit ''type'') \<noteq> Str (lit ''output_json'')"
      by (auto simp add: structured_path Some or_undefined_def split: option.splits)
    with False show ?thesis
      by (simp add: Let_def attempt_structured_def Some)
  qed
qed

lemma extractJson_eq:
  "extractJsonFromResponse parse stringify r =
     (if nullish r then Null else first_success parse stringify r)"
proof (cases "nullish r")
  case True
  then show ?thesis
    by (simp add: extractJsonFromResponse_def member_def and_then_def try_catch_def)
next
  case False
  then have m: "member r (lit ''output_text'') = Inr (own_prop r (lit ''output_text''))"
    by (simp add: member_def)
  have a: "(if truthy (own_prop r (lit ''output_text''))
            then (case parse (own_prop r (lit ''output_text'')) of Inl e \<Rightarrow> None | Inr v \<Rightarrow> Some v)
            else None) = attempt_text parse r"
    by (auto simp: attempt_text_def own_prop_field split: option.splits)
  have c: "try_catch (and_then (stringify r) (\<lambda>raw. case raw of
              Str s \<Rightarrow> (case match_braces s of Some m \<Rightarrow> parse (Str m) | None \<Rightarrow> Inr Null)
            | _ \<Rightarrow> Inl TypeError)) Null
          = (case attempt_scan parse stringify r of Some v \<Rightarrow> v | None \<Rightarrow> Null)"
    by (simp add: attempt_scan_def and_then_def try_catch_def
        split: sum.splits jsval.splits option.splits)
  show ?thesis
    unfolding extractJsonFromResponse_def m and_then_Inr a structured_attempt
    using False c
    by (simp add: first_success_def try_catch_def split: option.splits)
qed

lemmas first_success_defs =
  first_success_def attempt_text_def attempt_structured_def structured_content_def
  attempt_scan_def field_def element0_def match_braces_def

text \<open>
  Claim C3, as stated, fails where it says that the result is \<open>null\<close> when any
  parse throws.  The parse of the text field is wrapped in a \<open>try\<close> of its own whose
  \<open>catch\<close> falls through: on a response whose text is \<open>not json\<close> and whose
  structured content carries embedded JSON, \<open>JSON.parse\<close> throws and the result is
  the embedded JSON.
\<close>

theorem parse_throw_falls_through:
  "sample_parse (Str (lit ''not json'')) = Inl SyntaxError \<and>
   extractJsonFromResponse sample_parse sample_stringify
     (Obj [(lit ''output_text'', Str (lit ''not json'')),
           (lit ''output'', Arr [Obj [(lit ''content'',
              Arr [Obj [(lit ''type'', Str (lit ''output_json'')), (lit ''json'', jane)]])]])])
     = jane \<and>
   jane \<noteq> Null"
  by (simp add: extractJson_eq first_success_defs sample_defs lit_def)

text \<open>
  Claim C3, amended.  On a response that is neither \<open>null\<close> nor \<open>undefined\<close>,
  \<open>extractJsonFromResponse\<close> gives the result of the first of the three attempts
  that succeeds, in the order (a) the text field parsed as JSON, (b) the embedded
  JSON of the structured content whose type tag is \<open>output_json\<close>, (c) the match of
  the pattern in the serialized response, parsed; and \<open>null\<close> when all three fail.
  A parse that throws in (a) makes (a) fail and (b) and (c) are still tried; a throw
  in (c) makes (c) fail.  On \<open>null\<close> and \<open>undefined\<close> the result is \<open>null\<close>.  The
  function is total: no exception reaches its caller.
\<close>

theorem extractJsonFromResponse_first_success:
  "extractJsonFromResponse parse stringify r =
     (if nullish r then Null else first_success parse stringify r)"
  by (rule extractJson_eq)

theorem extractJsonFromResponse_first_success_witness:
  "extractJsonFromResponse sample_parse sample_stringify (Obj [(lit ''output_text'', Str final_text)])
     = final_event \<and>
   extractJsonFromResponse sample_parse sample_stringify Null = Null"
  using extractJsonFromResponse_first_success
      [of sample_parse sample_stringify "Obj [(lit ''output_text'', Str final_text)]"]
    extractJsonFromResponse_first_success [of sample_parse sample_stringify Null]
  by (simp add: first_success_defs sample_defs lit_def)

text \<open>
  Claim C4.  The upstream call returns the response \<open>{"output_text":"not json"}\<close>.
  The parse of the text throws, there is no structured content, and the third
  attempt serializes the response: the serialization of an object begins with
  \<open>{\<close> and ends with \<open>}\<close>, so the pattern matches all of it and the response itself
  comes back.  The endpoint answers with the response as \<open>data\<close>, not with \<open>null\<close>.
\<close>

theorem not_json_returns_the_response:
  "sample_parse (Str (lit ''not json'')) = Inl SyntaxError \<and>
   sample_stringify not_json_response = Inr (Str not_json_raw) \<and>
   match_braces not_json_raw = Some not_json_raw \<and>
   sample_parse (Str not_json_raw) = Inr not_json_response \<and>
   extractJsonFromResponse sample_parse sample_stringify not_json_response = not_json_response \<and>
   chat_endpoint sample_parse sample_stringify (\<lambda>m. Inr not_json_response)
     (Obj [(lit ''userMessage'', Str (lit ''I am Jane Doe''))])
     = Json 200 (Obj [(lit ''data'', not_json_response)])"
  by (simp add: chat_endpoint_def extractJson_eq first_success_defs sample_defs lit_def)

theorem not_json_returns_the_response_witness:
  "extractJsonFromResponse sample_parse sample_stringify not_json_response \<noteq> Null \<and>
   chat_endpoint sample_parse sample_stringify (\<lambda>m. Inr not_json_response)
     (Obj [(lit ''userMessage'', Str (lit ''I am Jane Doe''))])
     \<noteq> Json 200 (Obj [(lit ''data'', Null)])"
  using not_json_returns_the_response by (simp add: not_json_response_def)

section \<open>Properties of the sessions\<close>

text \<open>
  Claim C9.  \<open>startStream\<close> is called while an earlier run is waiting for its
  \<open>fetch\<close>.  The second call creates a controller and overwrites \<open>controllerRef\<close>:
  the first controller (index 0) is not aborted, nothing refers to it any more, and
  a \<open>stopStream\<close> that follows aborts the second controller only.
\<close>

theorem second_start_leaves_first_running:
  "controllerRef ((startStream_begin initial)\<lparr>isStreaming := True\<rparr>) = Some 0 \<and>
   controllers (startStream_begin ((startStream_begin initial)\<lparr>isStreaming := True\<rparr>))
     = [False, False] \<and>
   controllerRef (startStream_begin ((startStream_begin initial)\<lparr>isStreaming := True\<rparr>))
     = Some 1 \<and>
   controllers (stopStream (startStream_begin ((startStream_begin initial)\<lparr>isStreaming := True\<rparr>)))
     = [False, True]"
  by (simp add: startStream_begin_def stopStream_def initial_def)

theorem second_start_leaves_first_running_witness:
  "controllers (startStream_begin ((startStream_begin initial)\<lparr>isStreaming := True\<rparr>)) ! 0
     = False \<and>
   controllerRef (startStream_begin ((startStream_begin initial)\<lparr>isStreaming := True\<rparr>))
     \<noteq> Some 0"
  using second_start_leaves_first_running by simp

end
